theory Spec2Isabelle
  imports Complex_Main
begin

section \<open>Interest predictor: the inference pipeline of \<open>app.py\<close>\<close>

text \<open>
  The script \<open>app.py\<close> is a Streamlit page. Every interaction re-runs \<open>main\<close> from the
  top; the values of the widgets are the inputs of a run, \<open>st.session_state\<close> and the
  \<open>st.cache_resource\<close> memo survive from one run to the next, and the elements written to
  the page are the output of a run.

  Whatever the script calls outside itself (the file system, \<open>joblib\<close>, the unpickled
  classifier object) is a field of an environment record acting on a world state
  \<open>'w\<close>; a call that raises returns \<open>Inl\<close> of the exception. The world state holds
  whatever an answer of these calls may depend on: the disk, the inner state of the
  classifier object, a random generator.
\<close>

subsection \<open>Data\<close>

text \<open>
  Exceptions that can reach the two handlers of the script. \<open>Exception msg\<close> is an
  exception raised by a library call, \<open>msg\<close> being \<open>str(e)\<close>. \<open>IndexError\<close> is raised
  by \<open>[0]\<close> on an empty sequence and \<open>ValueError\<close> by \<open>max\<close> of an empty sequence; the
  interpreter's message texts of these two are not modelled.
\<close>

datatype exn = Exception string | IndexError | ValueError

subsection \<open>Floating-point numbers\<close>

text \<open>
  The class probabilities are numpy \<open>float64\<close> values, and line 322 multiplies one of
  them by 100 in \<open>float64\<close> arithmetic. \<open>Finite s m e\<close> is the number
  \<open>m * 2^e\<close>, negated when \<open>s\<close> is true; the binary64 format has the numbers with
  \<open>m < 2^53\<close> and \<open>-1074 \<le> e \<le> 971\<close>, written with the least exponent possible
  (\<open>2^52 \<le> m\<close> unless \<open>e = -1074\<close>), the two infinities and NaN.
\<close>

datatype float64 = Finite bool nat int | Infinity bool | NaN

definition fvalue :: "bool \<Rightarrow> nat \<Rightarrow> int \<Rightarrow> real" where
  "fvalue s m e = (if s then - real m else real m) * power_int 2 e"

definition is_float64 :: "float64 \<Rightarrow> bool" where
  "is_float64 x =
     (case x of
        Finite s m e \<Rightarrow> m < 2 ^ 53 \<and> - 1074 \<le> e \<and> e \<le> 971 \<and> (e = - 1074 \<or> 2 ^ 52 \<le> m)
      | _ \<Rightarrow> True)"

text \<open>\<open>in_range lo hi x\<close>: \<open>x\<close> is a number (not an infinity, not NaN) from \<open>lo\<close> to \<open>hi\<close>.\<close>

definition in_range :: "real \<Rightarrow> real \<Rightarrow> float64 \<Rightarrow> bool" where
  "in_range lo hi x =
     (case x of Finite s m e \<Rightarrow> lo \<le> fvalue s m e \<and> fvalue s m e \<le> hi | _ \<Rightarrow> False)"

text \<open>\<open>x > y\<close>: false whenever one side is NaN.\<close>

fun float_gt :: "float64 \<Rightarrow> float64 \<Rightarrow> bool" where
  "float_gt NaN y = False"
| "float_gt x NaN = False"
| "float_gt (Infinity s) (Infinity t) = (\<not> s \<and> t)"
| "float_gt (Infinity s) (Finite t n f) = (\<not> s)"
| "float_gt (Finite s m e) (Infinity t) = t"
| "float_gt (Finite s m e) (Finite t n f) = (fvalue s m e > fvalue t n f)"

text \<open>The number of binary digits of \<open>n\<close>.\<close>

fun bit_length :: "nat \<Rightarrow> nat" where
  "bit_length n = (if n = 0 then 0 else Suc (bit_length (n div 2)))"

declare bit_length.simps [simp del]

text \<open>\<open>n / 2^k\<close> rounded to the nearest integer, a tie to the even one.\<close>

definition round_half_even :: "nat \<Rightarrow> nat \<Rightarrow> nat" where
  "round_half_even n k =
     (let q = n div 2 ^ k; r = n mod 2 ^ k
      in if 2 * r > 2 ^ k \<or> (2 * r = 2 ^ k \<and> odd q) then q + 1 else q)"

text \<open>
  \<open>n * 2^e\<close> rounded to 53 binary digits: the digits beyond the 53rd are rounded
  away, and a mantissa that rounding has carried to \<open>2^53\<close> is written as \<open>2^52\<close>.
\<close>

definition round53 :: "nat \<Rightarrow> int \<Rightarrow> nat \<times> int" where
  "round53 n e =
     (let k = bit_length n - 53;
          q = round_half_even n k
      in if q = 2 ^ 53 then (2 ^ 52, e + int k + 1) else (q, e + int k))"

text \<open>
  \<open>x * 100\<close> in \<open>float64\<close> arithmetic: the exact product rounded to the nearest
  \<open>float64\<close>, ties to even, and to an infinity beyond the greatest \<open>float64\<close>. The
  exponent of the product is not below the exponent of \<open>x\<close>, so the product is never
  rounded at the small end of the format.
\<close>

definition times100 :: "float64 \<Rightarrow> float64" where
  "times100 x =
     (case x of
        NaN \<Rightarrow> NaN
      | Infinity s \<Rightarrow> Infinity s
      | Finite s m e \<Rightarrow>
          (case round53 (m * 100) e of
             (q, e') \<Rightarrow> if int (bit_length q) + e' > 1024 then Infinity s else Finite s q e'))"

subsection \<open>The calls and the page\<close>

text \<open>
  \<open>pd.DataFrame({'Age': [age], 'Gender': [gender_encoded]})\<close>: the columns in the order
  of the dict literal, each with its list of cells.
\<close>

type_synonym dataframe = "(string \<times> int list) list"

text \<open>
  The calls that leave the script: \<open>os.path.exists('model.pkl')\<close>,
  \<open>joblib.load('model.pkl')\<close>, \<open>model.predict(input_data)\<close> and
  \<open>model.predict_proba(input_data)\<close>. \<open>joblib.load\<close> returns the unpickled object:
  \<open>None\<close> is Python's \<open>None\<close>, \<open>Some m\<close> any other object \<open>m\<close>.
\<close>

record ('w, 'm) env =
  path_exists :: "'w \<Rightarrow> bool"
  joblib_load :: "'w \<Rightarrow> (exn + 'm option) \<times> 'w"
  predict :: "'m \<Rightarrow> dataframe \<Rightarrow> 'w \<Rightarrow> (exn + string list) \<times> 'w"
  predict_proba :: "'m \<Rightarrow> dataframe \<Rightarrow> 'w \<Rightarrow> (exn + float64 list list) \<times> 'w"

text \<open>The widget values of one run: the slider and the three buttons.\<close>

record widgets =
  age :: int
  female_selected :: bool
  male_selected :: bool
  predict_clicked :: bool

text \<open>
  The elements a run writes to the page that carry data or mark a branch; static
  markup (titles, labels, the style sheet) is left out. \<open>StError p e\<close> is
  \<open>st.error(p + str(e))\<close>; \<open>ResultCard emoji prediction confidence\<close> is the result
  card, which prints the confidence with one decimal.
\<close>

datatype element =
    Header
  | ModelNotFound
  | AgeDisplay int
  | Selected string
  | ResultCard string string float64
  | StError string exn
  | Footer

text \<open>
  What survives a run: the key \<open>gender_sel\<close> of \<open>st.session_state\<close> (\<open>None\<close>: the key is
  not there) and the memo of \<open>@st.cache_resource\<close> on \<open>load_model\<close> (\<open>None\<close>: not called
  yet; \<open>Some (r, out)\<close>: it returned \<open>r\<close> and wrote the elements \<open>out\<close>).
\<close>

record 'm session =
  gender_sel :: "string option"
  cache_resource :: "('m option \<times> element list) option"

subsection \<open>Encoding the input (lines 312 to 316)\<close>

definition gender_encoded :: "string \<Rightarrow> int" where
  "gender_encoded g = (if g = ''Female'' then 0 else 1)"

definition input_data :: "int \<Rightarrow> string \<Rightarrow> dataframe" where
  "input_data a g = [(''Age'', [a]), (''Gender'', [gender_encoded g])]"

subsection \<open>The gender selection (lines 292 to 298)\<close>

definition determine_gender :: "widgets \<Rightarrow> string option \<Rightarrow> string" where
  "determine_gender wd sel =
     (let g0 = (case sel of None \<Rightarrow> ''Female'' | Some g \<Rightarrow> g)
      in if female_selected wd then ''Female''
         else if male_selected wd then ''Male''
         else g0)"

subsection \<open>The prediction (lines 319 to 344)\<close>

text \<open>\<open>xs[0]\<close>.\<close>

definition index0 :: "'a list \<Rightarrow> exn + 'a" where
  "index0 xs = (case xs of [] \<Rightarrow> Inl IndexError | x # _ \<Rightarrow> Inr x)"

text \<open>
  Python's \<open>max\<close> of a sequence: the first element, replaced by each later one that is
  greater.
\<close>

definition py_max_from :: "float64 \<Rightarrow> float64 list \<Rightarrow> float64" where
  "py_max_from x ys =
     fold (\<lambda>item max_item. if float_gt item max_item then item else max_item) ys x"

definition py_max :: "float64 list \<Rightarrow> exn + float64" where
  "py_max xs = (case xs of [] \<Rightarrow> Inl ValueError | x # ys \<Rightarrow> Inr (py_max_from x ys))"

text \<open>\<open>max(probabilities) * 100\<close>.\<close>

definition confidence :: "float64 list \<Rightarrow> exn + float64" where
  "confidence probabilities =
     (case py_max probabilities of Inl e \<Rightarrow> Inl e | Inr m \<Rightarrow> Inr (times100 m))"

text \<open>
  The glyphs are the UTF-8 bytes of the four characters of the source: U+1F3AC,
  U+1F4A5, U+1F3AD and, for the default of \<open>get\<close>, U+1F3AF.
\<close>

definition emoji_map :: "(string \<times> string) list" where
  "emoji_map =
     [(''Animation'', [CHR 0xF0, CHR 0x9F, CHR 0x8E, CHR 0xAC]),
      (''Action'', [CHR 0xF0, CHR 0x9F, CHR 0x92, CHR 0xA5]),
      (''Drama'', [CHR 0xF0, CHR 0x9F, CHR 0x8E, CHR 0xAD])]"

definition emoji_default :: string where
  "emoji_default = [CHR 0xF0, CHR 0x9F, CHR 0x8E, CHR 0xAF]"

definition emoji :: "string \<Rightarrow> string" where
  "emoji prediction =
     (case map_of emoji_map prediction of Some g \<Rightarrow> g | None \<Rightarrow> emoji_default)"

text \<open>The body of the \<open>try\<close>: the first exception ends it.\<close>

definition try_predict ::
  "('w, 'm) env \<Rightarrow> 'm \<Rightarrow> dataframe \<Rightarrow> 'w \<Rightarrow> (exn + element) \<times> 'w" where
  "try_predict E model df w =
     (case predict E model df w of
        (Inl e, w1) \<Rightarrow> (Inl e, w1)
      | (Inr labels, w1) \<Rightarrow>
          (case index0 labels of
             Inl e \<Rightarrow> (Inl e, w1)
           | Inr prediction \<Rightarrow>
               (case predict_proba E model df w1 of
                  (Inl e, w2) \<Rightarrow> (Inl e, w2)
                | (Inr rows, w2) \<Rightarrow>
                    (case index0 rows of
                       Inl e \<Rightarrow> (Inl e, w2)
                     | Inr probabilities \<Rightarrow>
                         (case confidence probabilities of
                            Inl e \<Rightarrow> (Inl e, w2)
                          | Inr c \<Rightarrow> (Inr (ResultCard (emoji prediction) prediction c), w2))))))"

text \<open>The \<open>try\<close> with its handler: what the click on the predict button writes.\<close>

definition make_prediction ::
  "('w, 'm) env \<Rightarrow> 'm \<Rightarrow> dataframe \<Rightarrow> 'w \<Rightarrow> element \<times> 'w" where
  "make_prediction E model df w =
     (case try_predict E model df w of
        (Inr el, w') \<Rightarrow> (el, w')
      | (Inl e, w') \<Rightarrow> (StError ''Error making prediction: '' e, w'))"

subsection \<open>Loading the model (lines 219 to 230)\<close>

text \<open>
  The body of \<open>load_model\<close>: the returned value (\<open>None\<close> or the model), the elements it
  writes, and the world after it. What \<open>joblib.load\<close> returns is returned as it is.
\<close>

definition load_model :: "('w, 'm) env \<Rightarrow> 'w \<Rightarrow> ('m option \<times> element list) \<times> 'w" where
  "load_model E w =
     (if path_exists E w then
        (case joblib_load E w of
           (Inr model, w') \<Rightarrow> ((model, []), w')
         | (Inl e, w') \<Rightarrow> ((None, [StError ''Error loading model: '' e]), w'))
      else ((None, []), w))"

text \<open>
  \<open>@st.cache_resource\<close>: the body runs when the memo is empty; the value it returns
  is kept, with the elements it wrote. A later call does not run the body: it
  returns the kept value and writes the kept elements again.
\<close>

definition load_model_cached ::
  "('w, 'm) env \<Rightarrow> 'm session \<Rightarrow> 'w \<Rightarrow> ('m option \<times> element list) \<times> 'm session \<times> 'w" where
  "load_model_cached E s w =
     (case cache_resource s of
        Some (r, out) \<Rightarrow> ((r, out), s, w)
      | None \<Rightarrow>
          (case load_model E w of
             ((r, out), w') \<Rightarrow> ((r, out), s\<lparr>cache_resource := Some (r, out)\<rparr>, w')))"

subsection \<open>One run of the script (lines 232 to 351)\<close>

definition main ::
  "('w, 'm) env \<Rightarrow> widgets \<Rightarrow> 'm session \<Rightarrow> 'w \<Rightarrow> element list \<times> 'm session \<times> 'w" where
  "main E wd s w =
     (case load_model_cached E s w of
        ((None, out), s1, w1) \<Rightarrow> (out @ [Header, ModelNotFound], s1, w1)
      | ((Some model, out), s1, w1) \<Rightarrow>
          (let g = determine_gender wd (gender_sel s1);
               s2 = s1\<lparr>gender_sel := Some g\<rparr>;
               form = [AgeDisplay (age wd), Selected g]
           in if predict_clicked wd then
                (case make_prediction E model (input_data (age wd) g) w1 of
                   (el, w2) \<Rightarrow> (out @ [Header] @ form @ [el, Footer], s2, w2))
              else (out @ [Header] @ form @ [Footer], s2, w1)))"

text \<open>A sequence of runs, each with its own widget values: the pages, in order.\<close>

fun reruns ::
  "('w, 'm) env \<Rightarrow> widgets list \<Rightarrow> 'm session \<Rightarrow> 'w \<Rightarrow> element list list \<times> 'm session \<times> 'w" where
  "reruns E [] s w = ([], s, w)"
| "reruns E (wd # wds) s w =
     (case main E wd s w of
        (page, s1, w1) \<Rightarrow>
          (case reruns E wds s1 w1 of
             (pages, s2, w2) \<Rightarrow> (page # pages, s2, w2)))"

section \<open>Instances of the environment\<close>

text \<open>
  For evaluating the script on concrete inputs: a disk that holds no file, an
  unreadable file or a pickled classifier; a classifier that answers with fixed
  labels and probabilities (or raises) whatever the input; and a world that records
  every call made to \<open>joblib\<close> and to the classifier.
\<close>

datatype stub = Stub "exn + string list" "exn + float64 list list"

datatype disk = Absent | Corrupt string | Pickle stub

datatype call = JoblibLoad | Predict dataframe | PredictProba dataframe

record world =
  model_pkl :: disk
  calls :: "call list"

definition demo_env :: "(world, stub) env" where
  "demo_env =
     \<lparr> path_exists = (\<lambda>w. model_pkl w \<noteq> Absent),
       joblib_load = (\<lambda>w.
         (case model_pkl w of
            Pickle m \<Rightarrow> Inr (Some m)
          | Corrupt msg \<Rightarrow> Inl (Exception msg)
          | Absent \<Rightarrow> Inl (Exception ''No such file or directory''),
          w\<lparr>calls := calls w @ [JoblibLoad]\<rparr>)),
       predict = (\<lambda>m df w.
         (case m of Stub labels rows \<Rightarrow> labels, w\<lparr>calls := calls w @ [Predict df]\<rparr>)),
       predict_proba = (\<lambda>m df w.
         (case m of Stub labels rows \<Rightarrow> rows, w\<lparr>calls := calls w @ [PredictProba df]\<rparr>)) \<rparr>"

text \<open>
  The \<open>float64\<close> values that Python reads from the literals \<open>0.1\<close>, \<open>0.2\<close>, \<open>0.25\<close>,
  \<open>0.33\<close>, \<open>0.5\<close>, \<open>0.57\<close> and \<open>0.7\<close>.
\<close>

definition f64_0_1 :: float64 where "f64_0_1 = Finite False 7205759403792794 (- 56)"
definition f64_0_2 :: float64 where "f64_0_2 = Finite False 7205759403792794 (- 55)"
definition f64_0_25 :: float64 where "f64_0_25 = Finite False 4503599627370496 (- 54)"
definition f64_0_33 :: float64 where "f64_0_33 = Finite False 5944751508129055 (- 54)"
definition f64_0_5 :: float64 where "f64_0_5 = Finite False 4503599627370496 (- 53)"
definition f64_0_57 :: float64 where "f64_0_57 = Finite False 5134103575202365 (- 53)"
definition f64_0_7 :: float64 where "f64_0_7 = Finite False 6305039478318694 (- 53)"


section \<open>Properties\<close>

text \<open>
  C1. For every age from 18 to 80 and each of the labels "Female" and "Male", the
  encoded input has the columns Age and Gender in this order, the Age column holds
  the age unchanged, and the Gender column holds 0 for "Female" and 1 for "Male".
\<close>

theorem encode_known_gender:
  assumes "18 \<le> a" and "a \<le> 80" and "g \<in> {''Female'', ''Male''}"
  shows "map fst (input_data a g) = [''Age'', ''Gender'']
       \<and> map_of (input_data a g) ''Age'' = Some [a]
       \<and> (g = ''Female'' \<longrightarrow> map_of (input_data a g) ''Gender'' = Some [0])
       \<and> (g = ''Male'' \<longrightarrow> map_of (input_data a g) ''Gender'' = Some [1])"
  using assms by (auto simp: input_data_def gender_encoded_def)

theorem encode_known_gender_witness:
  "(18::int) \<le> 50 \<and> (50::int) \<le> 80 \<and> ''Male'' \<in> {''Female'', ''Male''}
   \<and> map fst (input_data 50 ''Male'') = [''Age'', ''Gender'']
   \<and> map_of (input_data 50 ''Male'') ''Age'' = Some [50]
   \<and> map_of (input_data 50 ''Male'') ''Gender'' = Some [1]"
  using encode_known_gender [of 50 "''Male''"] by simp

subsection \<open>Facts about the floating-point product\<close>

lemma bit_length_lower: "n > 0 \<Longrightarrow> 2 ^ (bit_length n - 1) \<le> n"
proof (induction n rule: bit_length.induct)
  case (1 n)
  show ?case
  proof (cases "n div 2 = 0")
    case True
    with 1 show ?thesis by (simp add: bit_length.simps[of n] bit_length.simps[of 0])
  next
    case False
    then have pos: "n div 2 > 0" by simp
    with 1 have ih: "(2::nat) ^ (bit_length (n div 2) - 1) \<le> n div 2" by simp
    have "bit_length (n div 2) = Suc (bit_length (n div 2) - 1)"
      using pos by (simp add: bit_length.simps[of "n div 2"])
    then have "bit_length n - 1 = Suc (bit_length (n div 2) - 1)"
      using 1 by (simp add: bit_length.simps[of n])
    then have "(2::nat) ^ (bit_length n - 1) = 2 * 2 ^ (bit_length (n div 2) - 1)"
      by simp
    also have "\<dots> \<le> 2 * (n div 2)" using ih by simp
    also have "\<dots> \<le> n" by simp
    finally show ?thesis .
  qed
qed

lemma bit_length_upper: "n < 2 ^ bit_length n"
proof (induction n rule: bit_length.induct)
  case (1 n)
  show ?case
  proof (cases "n = 0")
    case True
    then show ?thesis by simp
  next
    case False
    with 1 have "n div 2 < 2 ^ bit_length (n div 2)" by simp
    then have "n < 2 * 2 ^ bit_length (n div 2)" by linarith
    with False show ?thesis by (simp add: bit_length.simps[of n])
  qed
qed

lemma round_half_even_le:
  assumes "n \<le> b * 2 ^ k"
  shows "round_half_even n k \<le> b"
proof -
  have "n div 2 ^ k \<le> (b * 2 ^ k) div 2 ^ k"
    using assms by (rule div_le_mono)
  then have d: "n div 2 ^ k \<le> b" by simp
  show ?thesis
  proof (cases "n div 2 ^ k < b")
    case True
    then show ?thesis by (simp add: round_half_even_def Let_def)
  next
    case False
    with d have eq: "n div 2 ^ k = b" by simp
    have "n div 2 ^ k * 2 ^ k + n mod 2 ^ k = n" by (rule div_mult_mod_eq)
    with eq assms have "n mod 2 ^ k = 0" by simp
    with eq show ?thesis by (simp add: round_half_even_def Let_def)
  qed
qed

lemma round_half_even_error:
  "\<bar>real (round_half_even n k) * 2 ^ k - real n\<bar> \<le> 2 ^ k / 2"
proof -
  define q where "q = n div 2 ^ k"
  define r where "r = n mod 2 ^ k"
  have "q * 2 ^ k + r = n"
    unfolding q_def r_def by (rule div_mult_mod_eq)
  then have "real (q * 2 ^ k + r) = real n" by simp
  then have n: "real n = real q * 2 ^ k + real r" by simp
  have "r < 2 ^ k" unfolding r_def by simp
  then have "real r < real (2 ^ k)" by (simp only: of_nat_less_iff)
  then have r: "real r < 2 ^ k" by simp
  show ?thesis
  proof (cases "2 * r > 2 ^ k \<or> (2 * r = 2 ^ k \<and> odd q)")
    case True
    then have "round_half_even n k = q + 1"
      by (simp add: round_half_even_def Let_def q_def r_def)
    moreover from True have "2 ^ k \<le> 2 * r" by auto
    then have "real (2 ^ k) \<le> real (2 * r)" by (simp only: of_nat_le_iff)
    then have "2 ^ k \<le> 2 * real r" by simp
    ultimately show ?thesis using n r by (simp add: algebra_simps)
  next
    case False
    then have "round_half_even n k = q"
      by (auto simp add: round_half_even_def Let_def q_def r_def)
    moreover from False have "2 * r \<le> 2 ^ k" by auto
    then have "real (2 * r) \<le> real (2 ^ k)" by (simp only: of_nat_le_iff)
    then have "2 * real r \<le> 2 ^ k" by simp
    ultimately show ?thesis using n by (simp add: algebra_simps)
  qed
qed

lemma bit_length_0: "bit_length 0 = 0"
  by (simp add: bit_length.simps)

lemma bit_length_pos: "n \<noteq> 0 \<Longrightarrow> bit_length n = Suc (bit_length (n div 2))"
  by (simp add: bit_length.simps[of n])

lemma round_half_even_0: "round_half_even n 0 = n"
  by (simp add: round_half_even_def)

lemma pow2_add: "power_int (2::real) (a + b) = power_int 2 a * power_int 2 b"
  by (simp add: power_int_add)

lemma pow2_neg: "power_int (2::real) (- int n) = 1 / 2 ^ n"
  by (simp add: power_int_minus_divide)

lemma round53_value:
  assumes "round53 n e = (q, e')"
  shows "real q * power_int 2 e'
       = real (round_half_even n (bit_length n - 53)) * power_int 2 (e + int (bit_length n - 53))"
proof (cases "round_half_even n (bit_length n - 53) = 2 ^ 53")
  case True
  with assms have "q = 2 ^ 52" and "e' = e + int (bit_length n - 53) + 1"
    by (simp_all add: round53_def Let_def)
  with True show ?thesis by (simp add: pow2_add)
next
  case False
  with assms show ?thesis by (auto simp add: round53_def Let_def)
qed

lemma round_half_even_le_100:
  assumes "real n * power_int 2 e \<le> 100"
  shows "real (round_half_even n (bit_length n - 53)) * power_int 2 (e + int (bit_length n - 53)) \<le> 100"
proof (cases "bit_length n \<le> 53")
  case True
  then show ?thesis using assms by (simp add: round_half_even_0)
next
  case False
  define k where "k = bit_length n - 53"
  from False have bl: "bit_length n = 53 + k" and kpos: "0 < k" by (simp_all add: k_def)
  have npos: "0 < n"
  proof (rule ccontr)
    assume "\<not> 0 < n"
    then have "bit_length n = 0" by (simp add: bit_length_0)
    with False show False by simp
  qed
  from bit_length_lower [OF npos] bl have "2 ^ (52 + k) \<le> n" by simp
  then have "real (2 ^ (52 + k)) \<le> real n" by (simp only: of_nat_le_iff)
  then have lb: "(2::real) ^ (52 + k) \<le> real n" by simp
  have p: "0 < power_int (2::real) e" by simp
  from lb p have "2 ^ (52 + k) * power_int (2::real) e \<le> real n * power_int 2 e"
    by (simp add: mult_right_mono)
  with assms have "2 ^ (52 + k) * power_int (2::real) e \<le> 100" by linarith
  moreover have "2 ^ (52 + k) * power_int (2::real) e = power_int 2 (int (52 + k) + e)"
    by (simp only: pow2_add power_int_of_nat)
  ultimately have le100: "power_int (2::real) (int (52 + k) + e) \<le> 100" by simp
  have neg: "int (52 + k) + e < 7"
  proof (rule ccontr)
    assume "\<not> int (52 + k) + e < 7"
    then have "7 \<le> int (52 + k) + e" by simp
    then have "power_int (2::real) 7 \<le> power_int 2 (int (52 + k) + e)"
      by (intro power_int_increasing) simp_all
    with le100 show False by simp
  qed
  define j where "j = nat (- (e + int k))"
  from neg have ej: "e + int k = - int j" and e: "e = - int (j + k)"
    by (simp_all add: j_def)
  have "power_int (2::real) e = 1 / 2 ^ (j + k)"
    unfolding e by (rule pow2_neg)
  then have "real n * power_int 2 e = real n / 2 ^ (j + k)" by simp
  with assms have "real n / 2 ^ (j + k) \<le> 100" by simp
  then have "real n \<le> 100 * 2 ^ (j + k)" by (simp add: field_simps)
  then have "real n \<le> real (100 * 2 ^ j * 2 ^ k)" by (simp add: power_add)
  then have "n \<le> 100 * 2 ^ j * 2 ^ k" by (simp only: of_nat_le_iff)
  then have "round_half_even n k \<le> 100 * 2 ^ j" by (rule round_half_even_le)
  then have "real (round_half_even n k) \<le> real (100 * 2 ^ j)" by (simp only: of_nat_le_iff)
  then have "real (round_half_even n k) \<le> 100 * 2 ^ j" by simp
  then have "real (round_half_even n k) / 2 ^ j \<le> 100" by (simp add: field_simps)
  moreover have "power_int (2::real) (e + int k) = 1 / 2 ^ j"
    unfolding ej by (rule pow2_neg)
  then have "real (round_half_even n k) * power_int 2 (e + int k) = real (round_half_even n k) / 2 ^ j"
    by simp
  ultimately show ?thesis unfolding k_def by simp
qed

lemma round53_le_100:
  assumes "round53 n e = (q, e')" and "real n * power_int 2 e \<le> 100"
  shows "real q * power_int 2 e' \<le> 100"
  using round53_value [OF assms(1)] round_half_even_le_100 [OF assms(2)] by simp


lemma big_exponent:
  assumes "53 < bit_length n" and "real n * power_int 2 e \<le> 100"
  shows "int (bit_length n) + e < 8"
proof -
  have npos: "0 < n"
  proof (rule ccontr)
    assume "\<not> 0 < n"
    then have "bit_length n = 0" by (simp add: bit_length_0)
    with assms(1) show False by simp
  qed
  define b where "b = bit_length n - 1"
  from assms(1) have bl: "bit_length n = Suc b" by (simp add: b_def)
  from bit_length_lower [OF npos] have "2 ^ b \<le> n" by (simp add: b_def)
  then have "real (2 ^ b) \<le> real n" by (simp only: of_nat_le_iff)
  then have lb: "(2::real) ^ b \<le> real n" by simp
  have p: "0 < power_int (2::real) e" by simp
  from lb p have "2 ^ b * power_int (2::real) e \<le> real n * power_int 2 e"
    by (simp add: mult_right_mono)
  with assms(2) have "2 ^ b * power_int (2::real) e \<le> 100" by linarith
  moreover have "2 ^ b * power_int (2::real) e = power_int 2 (int b + e)"
    by (simp only: pow2_add power_int_of_nat)
  ultimately have le100: "power_int (2::real) (int b + e) \<le> 100" by simp
  have "int b + e < 7"
  proof (rule ccontr)
    assume "\<not> int b + e < 7"
    then have "7 \<le> int b + e" by simp
    then have "power_int (2::real) 7 \<le> power_int 2 (int b + e)"
      by (intro power_int_increasing) simp_all
    with le100 show False by simp
  qed
  with bl show ?thesis by simp
qed

lemma bit_length_le:
  assumes "n < 2 ^ b"
  shows "bit_length n \<le> b"
proof (cases "n = 0")
  case True
  then show ?thesis by (simp add: bit_length_0)
next
  case False
  then have "2 ^ (bit_length n - 1) \<le> n" by (intro bit_length_lower) simp
  from this assms have "(2::nat) ^ (bit_length n - 1) < 2 ^ b" by (rule le_less_trans)
  then have "bit_length n - 1 < b" by simp
  then show ?thesis by simp
qed

lemma round53_mantissa:
  assumes "round53 n e = (q, e')"
  shows "q < 2 ^ 53"
proof (cases "bit_length n \<le> 53")
  case True
  have "n < 2 ^ bit_length n" by (rule bit_length_upper)
  also have "\<dots> \<le> 2 ^ 53" using True by (intro power_increasing) simp_all
  finally have "n < 2 ^ 53" .
  with True assms show ?thesis by (auto simp add: round53_def Let_def round_half_even_0)
next
  case False
  define k where "k = bit_length n - 53"
  from False have bl: "bit_length n = 53 + k" by (simp add: k_def)
  have "n < 2 ^ bit_length n" by (rule bit_length_upper)
  then have "n \<le> 2 ^ 53 * 2 ^ k" by (simp add: bl power_add)
  then have le: "round_half_even n k \<le> 2 ^ 53" by (rule round_half_even_le)
  show ?thesis
  proof (cases "round_half_even n k = 2 ^ 53")
    case True
    with assms show ?thesis by (simp add: round53_def Let_def k_def)
  next
    case False
    with le have "round_half_even n k < 2 ^ 53" by simp
    with False assms show ?thesis by (auto simp add: round53_def Let_def k_def)
  qed
qed

lemma round53_exponent:
  assumes "round53 n e = (q, e')" and "real n * power_int 2 e \<le> 100"
    and "- 1074 \<le> e" and "e \<le> 971"
  shows "- 1074 \<le> e' \<and> e' \<le> 971"
proof (cases "bit_length n \<le> 53")
  case True
  have "n < 2 ^ bit_length n" by (rule bit_length_upper)
  also have "\<dots> \<le> 2 ^ 53" using True by (intro power_increasing) simp_all
  finally have "n < 2 ^ 53" .
  with True assms(1) have "e' = e"
    by (auto simp add: round53_def Let_def round_half_even_0)
  with assms(3,4) show ?thesis by simp
next
  case False
  then have "53 < bit_length n" by simp
  from big_exponent [OF this assms(2)] have "int (bit_length n) + e < 8" .
  moreover from assms(1) have "e' = e + int (bit_length n - 53) \<or> e' = e + int (bit_length n - 53) + 1"
    by (auto simp add: round53_def Let_def split: if_splits)
  ultimately show ?thesis using assms(3) False by auto
qed

lemma round_half_even_close:
  "\<bar>real (round_half_even n (bit_length n - 53)) * power_int 2 (e + int (bit_length n - 53))
     - real n * power_int 2 e\<bar> \<le> real n * power_int 2 e / 2 ^ 53"
proof (cases "bit_length n \<le> 53")
  case True
  then show ?thesis by (simp add: round_half_even_0)
next
  case False
  define k where "k = bit_length n - 53"
  define q where "q = round_half_even n k"
  from False have bl: "bit_length n = 53 + k" and kpos: "0 < k" by (simp_all add: k_def)
  have npos: "0 < n"
  proof (rule ccontr)
    assume "\<not> 0 < n"
    then have "bit_length n = 0" by (simp add: bit_length_0)
    with False show False by simp
  qed
  from bit_length_lower [OF npos] bl have "2 ^ (52 + k) \<le> n" by simp
  then have "real (2 ^ (52 + k)) \<le> real n" by (simp only: of_nat_le_iff)
  then have "(2::real) ^ 52 * 2 ^ k \<le> real n" by (simp add: power_add)
  then have "(2::real) ^ k / 2 \<le> real n / 2 ^ 53" by simp
  moreover have "\<bar>real q * 2 ^ k - real n\<bar> \<le> 2 ^ k / 2"
    unfolding q_def by (rule round_half_even_error)
  ultimately have err: "\<bar>real q * 2 ^ k - real n\<bar> \<le> real n / 2 ^ 53" by linarith
  have p: "0 < power_int (2::real) e" by simp
  have "real q * power_int 2 (e + int k) - real n * power_int 2 e
          = (real q * 2 ^ k - real n) * power_int 2 e"
    by (simp add: pow2_add algebra_simps)
  then have "\<bar>real q * power_int 2 (e + int k) - real n * power_int 2 e\<bar>
          = \<bar>real q * 2 ^ k - real n\<bar> * power_int 2 e"
    using p by (simp add: abs_mult)
  also have "\<dots> \<le> (real n / 2 ^ 53) * power_int 2 e"
    using err p by (simp add: mult_right_mono)
  finally show ?thesis by (simp add: q_def k_def)
qed

lemma round_half_even_ge:
  assumes "b * 2 ^ k \<le> n"
  shows "b \<le> round_half_even n k"
proof -
  have "(b * 2 ^ k) div 2 ^ k \<le> n div 2 ^ k"
    using assms by (rule div_le_mono)
  then have "b \<le> n div 2 ^ k" by simp
  then show ?thesis by (simp add: round_half_even_def Let_def)
qed

lemma round53_canonical:
  assumes "round53 n e = (q, e')" and "e = - 1074 \<or> 2 ^ 52 \<le> n"
  shows "e' = - 1074 \<or> 2 ^ 52 \<le> q"
proof (cases "bit_length n \<le> 53")
  case True
  have "n < 2 ^ bit_length n" by (rule bit_length_upper)
  also have "\<dots> \<le> 2 ^ 53" using True by (intro power_increasing) simp_all
  finally have "n < 2 ^ 53" .
  with True assms(1) have "q = n" and "e' = e"
    by (auto simp add: round53_def Let_def round_half_even_0)
  with assms(2) show ?thesis by simp
next
  case False
  define k where "k = bit_length n - 53"
  from False have bl: "bit_length n = 53 + k" by (simp add: k_def)
  have npos: "0 < n"
  proof (rule ccontr)
    assume "\<not> 0 < n"
    then have "bit_length n = 0" by (simp add: bit_length_0)
    with False show False by simp
  qed
  from bit_length_lower [OF npos] bl have "2 ^ (52 + k) \<le> n" by simp
  then have "2 ^ 52 * 2 ^ k \<le> n" by (simp add: power_add)
  then have ge: "2 ^ 52 \<le> round_half_even n k" by (rule round_half_even_ge)
  show ?thesis
  proof (cases "round_half_even n k = 2 ^ 53")
    case True
    with assms(1) show ?thesis by (simp add: round53_def Let_def k_def)
  next
    case False
    with assms(1) have "q = round_half_even n k" by (auto simp add: round53_def Let_def k_def)
    with ge show ?thesis by simp
  qed
qed

lemma times100_unit:
  assumes "is_float64 (Finite s m e)" and "in_range 0 1 (Finite s m e)"
  shows "\<exists>q e'. times100 (Finite s m e) = Finite s q e'
           \<and> is_float64 (Finite s q e')
           \<and> in_range 0 100 (Finite s q e')
           \<and> \<bar>fvalue s q e' - fvalue s m e * 100\<bar> \<le> fvalue s m e * 100 / 2 ^ 53"
proof -
  obtain q e' where r: "round53 (m * 100) e = (q, e')" by (cases "round53 (m * 100) e")
  from assms(1) have e: "- 1074 \<le> e" "e \<le> 971" and cm: "e = - 1074 \<or> 2 ^ 52 \<le> m"
    by (simp_all add: is_float64_def)
  from cm have "e = - 1074 \<or> 2 ^ 52 \<le> m * 100" by auto
  with r have can: "e' = - 1074 \<or> 2 ^ 52 \<le> q" by (rule round53_canonical)
  have p: "0 < power_int (2::real) e" by simp
  from assms(2) have v: "0 \<le> fvalue s m e" "fvalue s m e \<le> 1" by (simp_all add: in_range_def)
  have sm: "\<not> s \<or> m = 0"
  proof (rule ccontr)
    assume "\<not> (\<not> s \<or> m = 0)"
    then have "s" and "0 < m" by simp_all
    then have "fvalue s m e < 0" using p by (simp add: fvalue_def mult_neg_pos)
    with v(1) show False by simp
  qed
  have mv: "real m * power_int 2 e = fvalue s m e"
    using sm by (auto simp add: fvalue_def)
  have n100: "real (m * 100) * power_int 2 e \<le> 100"
    using mv v(2) by simp
  have val: "real q * power_int 2 e'
      = real (round_half_even (m * 100) (bit_length (m * 100) - 53))
          * power_int 2 (e + int (bit_length (m * 100) - 53))"
    using r by (rule round53_value)
  have q0: "m = 0 \<Longrightarrow> q = 0"
    using r by (simp add: round53_def Let_def bit_length_0 round_half_even_0)
  have qv: "real q * power_int 2 e' = fvalue s q e'"
    using sm q0 by (auto simp add: fvalue_def)
  have le: "real q * power_int 2 e' \<le> 100"
    using r n100 by (rule round53_le_100)
  have ge: "0 \<le> real q * power_int 2 e'" by simp
  have mant: "q < 2 ^ 53" using r by (rule round53_mantissa)
  have ex: "- 1074 \<le> e' \<and> e' \<le> 971" using r n100 e by (rule round53_exponent)
  from mant have "bit_length q \<le> 53" by (rule bit_length_le)
  with ex have "\<not> int (bit_length q) + e' > 1024" by simp
  with r have t: "times100 (Finite s m e) = Finite s q e'" by (simp add: times100_def)
  have close: "\<bar>real q * power_int 2 e' - real (m * 100) * power_int 2 e\<bar>
                 \<le> real (m * 100) * power_int 2 e / 2 ^ 53"
    unfolding val by (rule round_half_even_close)
  have "real (m * 100) * power_int 2 e = real m * power_int 2 e * 100" by simp
  then have eq1: "real (m * 100) * power_int 2 e = fvalue s m e * 100"
    by (simp only: mv)
  from close have c: "\<bar>fvalue s q e' - fvalue s m e * 100\<bar> \<le> fvalue s m e * 100 / 2 ^ 53"
    unfolding eq1 qv .
  from t mant ex can le ge qv c show ?thesis
    by (auto simp add: is_float64_def in_range_def)
qed

lemma py_max_from_mem: "py_max_from x ys \<in> set (x # ys)"
proof (induction ys arbitrary: x)
  case Nil
  show ?case by (simp add: py_max_from_def)
next
  case (Cons y ys)
  have "py_max_from x (y # ys) = py_max_from (if float_gt y x then y else x) ys"
    by (simp add: py_max_from_def)
  with Cons [of "if float_gt y x then y else x"] show ?case
    by (auto split: if_splits)
qed

lemma py_max_from_greatest:
  assumes "\<forall>p \<in> set (x # ys). in_range lo hi p"
  shows "py_max_from x ys \<in> set (x # ys)
       \<and> (\<forall>p \<in> set (x # ys). \<not> float_gt p (py_max_from x ys))"
  using assms
proof (induction ys arbitrary: x)
  case Nil
  then obtain s m e where "x = Finite s m e"
    by (cases x) (auto simp add: in_range_def)
  then show ?case by (simp add: py_max_from_def)
next
  case (Cons y ys)
  define z where "z = (if float_gt y x then y else x)"
  have step: "py_max_from x (y # ys) = py_max_from z ys"
    by (simp add: py_max_from_def z_def)
  have z: "z = x \<or> z = y" by (simp add: z_def)
  with Cons.prems have "\<forall>p \<in> set (z # ys). in_range lo hi p" by auto
  from Cons.IH [OF this]
  have ih: "py_max_from z ys \<in> set (z # ys)"
    "\<forall>p \<in> set (z # ys). \<not> float_gt p (py_max_from z ys)" by simp_all
  define r where "r = py_max_from z ys"
  from ih(1) z have rin: "r \<in> set (x # y # ys)" by (auto simp add: r_def)
  with Cons.prems have "in_range lo hi r" by blast
  then obtain sr mr er where r: "r = Finite sr mr er"
    by (cases r) (auto simp add: in_range_def)
  from Cons.prems obtain sx mx ex where x: "x = Finite sx mx ex"
    by (cases x) (auto simp add: in_range_def)
  from Cons.prems obtain sy my ey where y: "y = Finite sy my ey"
    by (cases y) (auto simp add: in_range_def)
  from ih(2) have zr: "\<not> float_gt z r" by (simp add: r_def)
  have "\<not> float_gt x r \<and> \<not> float_gt y r"
    using zr unfolding z_def x y r by (auto split: if_splits)
  with ih(2) rin show ?case
    unfolding step by (auto simp add: r_def)
qed

subsection \<open>Helper facts\<close>

lemma confidence_Cons: "confidence (p # ps) = Inr (times100 (py_max_from p ps))"
  by (simp add: confidence_def py_max_def)

lemma try_predict_ok:
  assumes "predict E model df w = (Inr (l # ls), w1)"
    and "predict_proba E model df w1 = (Inr ((p # ps) # rows), w2)"
  shows "try_predict E model df w
           = (Inr (ResultCard (emoji l) l (times100 (py_max_from p ps))), w2)"
  using assms by (simp add: try_predict_def index0_def confidence_Cons)

lemma make_prediction_ok:
  assumes "predict E model df w = (Inr (l # ls), w1)"
    and "predict_proba E model df w1 = (Inr ((p # ps) # rows), w2)"
  shows "make_prediction E model df w
           = (ResultCard (emoji l) l (times100 (py_max_from p ps)), w2)"
  using try_predict_ok [OF assms] by (simp add: make_prediction_def)

lemma make_prediction_predict_raises:
  assumes "predict E model df w = (Inl e, w1)"
  shows "make_prediction E model df w = (StError ''Error making prediction: '' e, w1)"
  using assms by (simp add: make_prediction_def try_predict_def)

lemma make_prediction_proba_raises:
  assumes "predict E model df w = (Inr (l # ls), w1)"
    and "predict_proba E model df w1 = (Inl e, w2)"
  shows "make_prediction E model df w = (StError ''Error making prediction: '' e, w2)"
  using assms by (simp add: make_prediction_def try_predict_def index0_def)

lemma main_loaded:
  assumes "load_model_cached E s w = ((Some model, out), s1, w1)"
    and "predict_clicked wd"
    and "make_prediction E model (input_data (age wd) (determine_gender wd (gender_sel s1))) w1
           = (el, w2)"
  shows "main E wd s w =
           (out @ [Header, AgeDisplay (age wd), Selected (determine_gender wd (gender_sel s1)),
                   el, Footer],
            s1\<lparr>gender_sel := Some (determine_gender wd (gender_sel s1))\<rparr>, w2)"
  using assms by (simp add: main_def Let_def)

lemma main_loaded_clicked:
  assumes "cache_resource s = Some (Some model, [])"
    and "predict_clicked wd"
    and "make_prediction E model (input_data (age wd) (determine_gender wd (gender_sel s))) w
           = (el, w')"
  shows "main E wd s w =
           ([Header, AgeDisplay (age wd), Selected (determine_gender wd (gender_sel s)), el, Footer],
            s\<lparr>gender_sel := Some (determine_gender wd (gender_sel s))\<rparr>, w')"
  using assms by (simp add: main_def load_model_cached_def Let_def)

text \<open>The instances, evaluated.\<close>

lemmas f64_defs =
  f64_0_1_def f64_0_2_def f64_0_25_def f64_0_33_def f64_0_5_def f64_0_57_def f64_0_7_def

lemmas times100_eval =
  times100_def round53_def round_half_even_def Let_def bit_length_0 bit_length_pos

lemma max_0_7: "py_max_from f64_0_7 [f64_0_2, f64_0_1] = f64_0_7"
  by (simp add: py_max_from_def f64_defs fvalue_def power_int_minus field_simps)

lemma max_0_57: "py_max_from f64_0_57 [f64_0_33, f64_0_1] = f64_0_57"
  by (simp add: py_max_from_def f64_defs fvalue_def power_int_minus field_simps)

lemma max_0_5: "py_max_from f64_0_25 [f64_0_5, f64_0_25] = f64_0_5"
  by (simp add: py_max_from_def f64_defs fvalue_def power_int_minus field_simps)

lemma times100_0_7: "times100 f64_0_7 = Finite False 4925812092436480 (- 46)"
  by (simp add: f64_defs times100_eval)

lemma times100_0_57: "times100 f64_0_57 = Finite False 8022036836253695 (- 47)"
  by (simp add: f64_defs times100_eval)

lemma times100_0_5: "times100 f64_0_5 = Finite False 7036874417766400 (- 47)"
  by (simp add: f64_defs times100_eval)

lemma fvalue_50: "fvalue False 7036874417766400 (- 47) = 50"
  by (simp add: fvalue_def power_int_minus)

lemma fvalue_below_57:
  "fvalue False 8022036836253695 (- 47) = 57 - 1 / 2 ^ 47"
  by (simp add: fvalue_def power_int_minus field_simps)

lemma f64_unit:
  "is_float64 f64_0_1 \<and> in_range 0 1 f64_0_1"
  "is_float64 f64_0_33 \<and> in_range 0 1 f64_0_33"
  "is_float64 f64_0_57 \<and> in_range 0 1 f64_0_57"
  by (simp_all add: f64_defs is_float64_def in_range_def fvalue_def power_int_minus field_simps)

text \<open>
  C2. For every distribution over the three classes that the classifier returns,
  each entry a \<open>float64\<close> number between 0 and 1, the confidence of the prediction is
  the greatest entry multiplied by 100, and nothing else is applied to it: it is an
  entry that no entry is greater than, times 100 in the \<open>float64\<close> arithmetic of
  line 322, which is the exact product up to the rounding of the format (a relative
  error of at most \<open>2^-53\<close>). The confidence is a \<open>float64\<close> number between 0 and 100.
\<close>

theorem confidence_is_max_times_100:
  assumes "predict E model df w = (Inr (l # ls), w1)"
    and "predict_proba E model df w1 = (Inr (ps # rows), w2)"
    and "length ps = 3"
    and "\<forall>p \<in> set ps. is_float64 p \<and> in_range 0 1 p"
  shows "\<exists>mx. mx \<in> set ps \<and> (\<forall>p \<in> set ps. \<not> float_gt p mx)
           \<and> make_prediction E model df w = (ResultCard (emoji l) l (times100 mx), w2)
           \<and> is_float64 (times100 mx) \<and> in_range 0 100 (times100 mx)
           \<and> (\<exists>s m e q e'. mx = Finite s m e \<and> times100 mx = Finite s q e'
                 \<and> \<bar>fvalue s q e' - fvalue s m e * 100\<bar> \<le> fvalue s m e * 100 / 2 ^ 53)"
proof -
  from \<open>length ps = 3\<close> obtain p ps' where ps: "ps = p # ps'"
    by (cases ps) auto
  define mx where "mx = py_max_from p ps'"
  from assms(4) have "\<forall>x \<in> set (p # ps'). in_range 0 1 x" by (simp add: ps)
  from py_max_from_greatest [OF this]
  have mem: "mx \<in> set ps" and gr: "\<forall>x \<in> set ps. \<not> float_gt x mx"
    by (simp_all add: mx_def ps)
  from mem assms(4) have fl: "is_float64 mx" and un: "in_range 0 1 mx" by blast+
  from un obtain s m e where fin: "mx = Finite s m e"
    by (cases mx) (auto simp add: in_range_def)
  from times100_unit [OF fl [unfolded fin] un [unfolded fin]]
  obtain q e' where t: "times100 (Finite s m e) = Finite s q e'"
    and f: "is_float64 (Finite s q e')" and r: "in_range 0 100 (Finite s q e')"
    and c: "\<bar>fvalue s q e' - fvalue s m e * 100\<bar> \<le> fvalue s m e * 100 / 2 ^ 53"
    by blast
  have mp: "make_prediction E model df w = (ResultCard (emoji l) l (times100 mx), w2)"
    using make_prediction_ok [OF assms(1) assms(2) [unfolded ps]] by (simp add: mx_def)
  from t f r have "is_float64 (times100 mx)" and "in_range 0 100 (times100 mx)"
    by (simp_all add: fin)
  moreover from t c
  have "\<exists>s m e q e'. mx = Finite s m e \<and> times100 mx = Finite s q e'
          \<and> \<bar>fvalue s q e' - fvalue s m e * 100\<bar> \<le> fvalue s m e * 100 / 2 ^ 53"
    unfolding fin by blast
  ultimately show ?thesis using mem gr mp by blast
qed

theorem confidence_is_max_times_100_witness:
  "is_float64 f64_0_57 \<and> in_range 0 1 f64_0_57
   \<and> is_float64 f64_0_33 \<and> in_range 0 1 f64_0_33
   \<and> is_float64 f64_0_1 \<and> in_range 0 1 f64_0_1
   \<and> make_prediction demo_env (Stub (Inr [''Animation'']) (Inr [[f64_0_57, f64_0_33, f64_0_1]]))
        (input_data 25 ''Female'') \<lparr>model_pkl = Absent, calls = []\<rparr>
       = (ResultCard (emoji ''Animation'') ''Animation'' (Finite False 8022036836253695 (- 47)),
          \<lparr>model_pkl = Absent,
           calls = [Predict (input_data 25 ''Female''), PredictProba (input_data 25 ''Female'')]\<rparr>)
   \<and> fvalue False 8022036836253695 (- 47) = 57 - 1 / 2 ^ 47
   \<and> in_range 0 100 (Finite False 8022036836253695 (- 47))"
proof -
  let ?m = "Stub (Inr [''Animation'']) (Inr [[f64_0_57, f64_0_33, f64_0_1]])"
  let ?df = "input_data 25 ''Female''"
  let ?w = "\<lparr>model_pkl = Absent, calls = []\<rparr>"
  let ?w1 = "\<lparr>model_pkl = Absent, calls = [Predict ?df]\<rparr>"
  let ?w2 = "\<lparr>model_pkl = Absent, calls = [Predict ?df, PredictProba ?df]\<rparr>"
  have h1: "predict demo_env ?m ?df ?w = (Inr [''Animation''], ?w1)"
    by (simp add: demo_env_def)
  have h2: "predict_proba demo_env ?m ?df ?w1 = (Inr [[f64_0_57, f64_0_33, f64_0_1]], ?w2)"
    by (simp add: demo_env_def)
  have h3: "length [f64_0_57, f64_0_33, f64_0_1] = 3" by simp
  have h4: "\<forall>p \<in> set [f64_0_57, f64_0_33, f64_0_1]. is_float64 p \<and> in_range 0 1 p"
    using f64_unit by simp
  from confidence_is_max_times_100 [OF h1 h2 h3 h4]
  obtain mx where mx: "mx \<in> set [f64_0_57, f64_0_33, f64_0_1]"
    and gr: "\<forall>p \<in> set [f64_0_57, f64_0_33, f64_0_1]. \<not> float_gt p mx"
    and mp: "make_prediction demo_env ?m ?df ?w = (ResultCard (emoji ''Animation'') ''Animation'' (times100 mx), ?w2)"
    and rg: "in_range 0 100 (times100 mx)"
    by blast
  have "float_gt f64_0_57 f64_0_33" and "float_gt f64_0_57 f64_0_1"
    by (simp_all add: f64_defs fvalue_def power_int_minus field_simps)
  with mx gr have "mx = f64_0_57" by auto
  with mp rg h4 show ?thesis
    by (simp add: times100_0_57 fvalue_below_57)
qed

text \<open>
  C6. An exception raised by either classifier call is caught and written to the page
  as an error message that carries the exception; the call is made once and not
  repeated (the world afterwards is the world right after the failing call), and
  the run goes on to its end.
\<close>

theorem prediction_exception_reported:
  "(predict E model df w = (Inl e, w1) \<longrightarrow>
      make_prediction E model df w = (StError ''Error making prediction: '' e, w1))
   \<and> (predict E model df w = (Inr (l # ls), w1) \<and> predict_proba E model df w1 = (Inl e, w2) \<longrightarrow>
      make_prediction E model df w = (StError ''Error making prediction: '' e, w2))
   \<and> (cache_resource s = Some (Some model, []) \<and> predict_clicked wd
        \<and> make_prediction E model (input_data (age wd) (determine_gender wd (gender_sel s))) w
            = (StError ''Error making prediction: '' e, w3) \<longrightarrow>
      main E wd s w =
        ([Header, AgeDisplay (age wd), Selected (determine_gender wd (gender_sel s)),
          StError ''Error making prediction: '' e, Footer],
         s\<lparr>gender_sel := Some (determine_gender wd (gender_sel s))\<rparr>, w3))"
proof (intro conjI impI)
  assume "predict E model df w = (Inl e, w1)"
  then show "make_prediction E model df w = (StError ''Error making prediction: '' e, w1)"
    by (rule make_prediction_predict_raises)
next
  assume "predict E model df w = (Inr (l # ls), w1) \<and> predict_proba E model df w1 = (Inl e, w2)"
  then show "make_prediction E model df w = (StError ''Error making prediction: '' e, w2)"
    by (blast intro: make_prediction_proba_raises)
next
  assume "cache_resource s = Some (Some model, []) \<and> predict_clicked wd
        \<and> make_prediction E model (input_data (age wd) (determine_gender wd (gender_sel s))) w
            = (StError ''Error making prediction: '' e, w3)"
  then show "main E wd s w =
        ([Header, AgeDisplay (age wd), Selected (determine_gender wd (gender_sel s)),
          StError ''Error making prediction: '' e, Footer],
         s\<lparr>gender_sel := Some (determine_gender wd (gender_sel s))\<rparr>, w3)"
    by (blast intro: main_loaded_clicked)
qed

theorem prediction_exception_reported_witness:
  "make_prediction demo_env (Stub (Inl (Exception ''bad input'')) (Inr [[f64_0_7, f64_0_2, f64_0_1]]))
      (input_data 30 ''Female'') \<lparr>model_pkl = Absent, calls = []\<rparr>
    = (StError ''Error making prediction: '' (Exception ''bad input''),
       \<lparr>model_pkl = Absent, calls = [Predict (input_data 30 ''Female'')]\<rparr>)
   \<and> make_prediction demo_env (Stub (Inr [''Drama'']) (Inl (Exception ''no proba'')))
      (input_data 30 ''Female'') \<lparr>model_pkl = Absent, calls = []\<rparr>
    = (StError ''Error making prediction: '' (Exception ''no proba''),
       \<lparr>model_pkl = Absent,
        calls = [Predict (input_data 30 ''Female''), PredictProba (input_data 30 ''Female'')]\<rparr>)
   \<and> main demo_env \<lparr>age = 30, female_selected = False, male_selected = False,
                     predict_clicked = True\<rparr>
      \<lparr>gender_sel = Some ''Female'',
       cache_resource = Some (Some (Stub (Inl (Exception ''bad input'')) (Inr [[f64_0_7, f64_0_2, f64_0_1]])), [])\<rparr>
      \<lparr>model_pkl = Absent, calls = []\<rparr>
    = ([Header, AgeDisplay 30, Selected ''Female'',
        StError ''Error making prediction: '' (Exception ''bad input''), Footer],
       \<lparr>gender_sel = Some ''Female'',
        cache_resource = Some (Some (Stub (Inl (Exception ''bad input'')) (Inr [[f64_0_7, f64_0_2, f64_0_1]])), [])\<rparr>,
       \<lparr>model_pkl = Absent, calls = [Predict (input_data 30 ''Female'')]\<rparr>)"
proof -
  let ?w = "\<lparr>model_pkl = Absent, calls = []\<rparr>"
  let ?w1 = "\<lparr>model_pkl = Absent, calls = [Predict (input_data 30 ''Female'')]\<rparr>"
  let ?w2 = "\<lparr>model_pkl = Absent,
     calls = [Predict (input_data 30 ''Female''), PredictProba (input_data 30 ''Female'')]\<rparr>"
  let ?m1 = "Stub (Inl (Exception ''bad input'')) (Inr [[f64_0_7, f64_0_2, f64_0_1]])"
  let ?m2 = "Stub (Inr [''Drama'']) (Inl (Exception ''no proba''))"
  let ?wd = "\<lparr>age = 30, female_selected = False, male_selected = False, predict_clicked = True\<rparr>"
  let ?s = "\<lparr>gender_sel = Some ''Female'', cache_resource = Some (Some ?m1, [])\<rparr>"
  have p1: "predict demo_env ?m1 (input_data 30 ''Female'') ?w = (Inl (Exception ''bad input''), ?w1)"
    by (simp add: demo_env_def)
  have p2: "predict demo_env ?m2 (input_data 30 ''Female'') ?w = (Inr [''Drama''], ?w1)"
    by (simp add: demo_env_def)
  have p3: "predict_proba demo_env ?m2 (input_data 30 ''Female'') ?w1
              = (Inl (Exception ''no proba''), ?w2)"
    by (simp add: demo_env_def)
  have a: "make_prediction demo_env ?m1 (input_data 30 ''Female'') ?w
             = (StError ''Error making prediction: '' (Exception ''bad input''), ?w1)"
    using prediction_exception_reported
      [of demo_env ?m1 "input_data 30 ''Female''" ?w "Exception ''bad input''" ?w1] p1
    by blast
  have b: "make_prediction demo_env ?m2 (input_data 30 ''Female'') ?w
             = (StError ''Error making prediction: '' (Exception ''no proba''), ?w2)"
    using prediction_exception_reported
      [of demo_env ?m2 "input_data 30 ''Female''" ?w "Exception ''no proba''" ?w1
          "''Drama''" "[]" ?w2] p2 p3
    by blast
  have g: "determine_gender ?wd (gender_sel ?s) = ''Female''"
    by (simp add: determine_gender_def)
  have c: "main demo_env ?wd ?s ?w
             = ([Header, AgeDisplay 30, Selected ''Female'',
                 StError ''Error making prediction: '' (Exception ''bad input''), Footer],
                ?s, ?w1)"
    using prediction_exception_reported
      [of demo_env ?m1 "input_data 30 ''Female''" ?w "Exception ''bad input''" ?w1
          _ _ _ ?s ?wd ?w1] a g
    by simp
  from a b c show ?thesis by simp
qed




text \<open>
  C9. The glyph of a label is looked up in a fixed table of three entries: each of
  "Animation", "Action" and "Drama" has a glyph of its own, and every other label
  gets the one fallback glyph, which is none of the three.
\<close>

theorem emoji_lookup:
  "emoji ''Animation'' = [CHR 0xF0, CHR 0x9F, CHR 0x8E, CHR 0xAC]
   \<and> emoji ''Action'' = [CHR 0xF0, CHR 0x9F, CHR 0x92, CHR 0xA5]
   \<and> emoji ''Drama'' = [CHR 0xF0, CHR 0x9F, CHR 0x8E, CHR 0xAD]
   \<and> distinct [emoji ''Animation'', emoji ''Action'', emoji ''Drama'', emoji_default]
   \<and> map fst emoji_map = [''Animation'', ''Action'', ''Drama'']
   \<and> (\<forall>l. l \<notin> {''Animation'', ''Action'', ''Drama''} \<longrightarrow> emoji l = emoji_default)"
  by (simp add: emoji_def emoji_map_def emoji_default_def)

theorem emoji_lookup_witness:
  "''Comedy'' \<notin> {''Animation'', ''Action'', ''Drama''}
   \<and> emoji ''Comedy'' = [CHR 0xF0, CHR 0x9F, CHR 0x8E, CHR 0xAF]"
  using emoji_lookup by (simp add: emoji_default_def)

subsection \<open>Runs of the script\<close>

lemma main_unavailable:
  assumes "cache_resource s = Some (None, out)"
  shows "main E wd s w = (out @ [Header, ModelNotFound], s, w)"
  using assms by (simp add: main_def load_model_cached_def)

lemma reruns_unavailable:
  assumes "cache_resource s = Some (None, out)"
  shows "reruns E wds s w = (replicate (length wds) (out @ [Header, ModelNotFound]), s, w)"
proof (induction wds)
  case Nil
  show ?case by simp
next
  case (Cons wd wds)
  then show ?case by (simp add: main_unavailable [OF assms])
qed

lemma load_model_absent:
  assumes "\<not> path_exists E w"
  shows "load_model E w = ((None, []), w)"
  using assms by (simp add: load_model_def)

lemma main_gender_sel:
  assumes "gender_sel s \<in> {None, Some ''Female''}"
    and "\<not> male_selected wd"
  shows "gender_sel (fst (snd (main E wd s w))) \<in> {None, Some ''Female''}"
proof -
  obtain r out s1 w1 where l: "load_model_cached E s w = ((r, out), s1, w1)"
    by (metis prod.exhaust)
  then have g: "gender_sel s1 = gender_sel s"
    by (auto simp: load_model_cached_def split: option.splits prod.splits)
  with assms have "determine_gender wd (gender_sel s1) = ''Female''"
    by (auto simp: determine_gender_def)
  with l g assms(1) show ?thesis
    by (cases r) (auto simp: main_def Let_def split: prod.splits)
qed

lemma reruns_gender_sel:
  assumes "gender_sel s \<in> {None, Some ''Female''}"
    and "\<forall>wd \<in> set wds. \<not> male_selected wd"
  shows "gender_sel (fst (snd (reruns E wds s w))) \<in> {None, Some ''Female''}"
  using assms
proof (induction wds arbitrary: s w)
  case Nil
  then show ?case by simp
next
  case (Cons wd wds)
  obtain page s1 w1 where m: "main E wd s w = (page, s1, w1)"
    by (metis prod.exhaust)
  from Cons.prems have "gender_sel (fst (snd (main E wd s w))) \<in> {None, Some ''Female''}"
    by (intro main_gender_sel) auto
  with m have "gender_sel s1 \<in> {None, Some ''Female''}" by simp
  with Cons.prems have "gender_sel (fst (snd (reruns E wds s1 w1))) \<in> {None, Some ''Female''}"
    by (intro Cons.IH) auto
  with m show ?case by (auto split: prod.splits)
qed

text \<open>
  C5. When no file is at the path, \<open>load_model\<close> returns \<open>None\<close> without raising and
  without writing anything. The run that made this call, and every run after it
  whatever its widget values (a click on the predict button included) and whatever
  the world has become, writes the header and the model-not-found notice and then
  returns: no form, no prediction, no call of the classifier, and the run ends
  normally.
\<close>

theorem absent_model_unavailable:
  assumes "\<not> path_exists E w" and "cache_resource s = None"
  shows "load_model E w = ((None, []), w)
       \<and> main E wd s w = ([Header, ModelNotFound], s\<lparr>cache_resource := Some (None, [])\<rparr>, w)
       \<and> reruns E wds (s\<lparr>cache_resource := Some (None, [])\<rparr>) w'
           = (replicate (length wds) [Header, ModelNotFound], s\<lparr>cache_resource := Some (None, [])\<rparr>, w')"
proof (intro conjI)
  show l: "load_model E w = ((None, []), w)"
    using assms(1) by (rule load_model_absent)
  show "main E wd s w = ([Header, ModelNotFound], s\<lparr>cache_resource := Some (None, [])\<rparr>, w)"
    using assms(2) l by (simp add: main_def load_model_cached_def)
  show "reruns E wds (s\<lparr>cache_resource := Some (None, [])\<rparr>) w'
           = (replicate (length wds) [Header, ModelNotFound], s\<lparr>cache_resource := Some (None, [])\<rparr>, w')"
    using reruns_unavailable [of "s\<lparr>cache_resource := Some (None, [])\<rparr>" "[]" E wds w']
    by simp
qed

theorem absent_model_unavailable_witness:
  "\<not> path_exists demo_env \<lparr>model_pkl = Absent, calls = []\<rparr>
   \<and> load_model demo_env \<lparr>model_pkl = Absent, calls = []\<rparr>
       = ((None, []), \<lparr>model_pkl = Absent, calls = []\<rparr>)
   \<and> main demo_env
        \<lparr>age = 25, female_selected = False, male_selected = False, predict_clicked = True\<rparr>
        \<lparr>gender_sel = None, cache_resource = None\<rparr> \<lparr>model_pkl = Absent, calls = []\<rparr>
       = ([Header, ModelNotFound], \<lparr>gender_sel = None, cache_resource = Some (None, [])\<rparr>,
          \<lparr>model_pkl = Absent, calls = []\<rparr>)
   \<and> reruns demo_env
        [\<lparr>age = 40, female_selected = False, male_selected = True, predict_clicked = False\<rparr>,
         \<lparr>age = 40, female_selected = False, male_selected = False, predict_clicked = True\<rparr>]
        \<lparr>gender_sel = None, cache_resource = Some (None, [])\<rparr>
        \<lparr>model_pkl = Pickle (Stub (Inr [''Drama'']) (Inr [[f64_0_1, f64_0_2, f64_0_7]])), calls = []\<rparr>
       = ([[Header, ModelNotFound], [Header, ModelNotFound]],
          \<lparr>gender_sel = None, cache_resource = Some (None, [])\<rparr>,
          \<lparr>model_pkl = Pickle (Stub (Inr [''Drama'']) (Inr [[f64_0_1, f64_0_2, f64_0_7]])), calls = []\<rparr>)"
proof -
  have h: "\<not> path_exists demo_env \<lparr>model_pkl = Absent, calls = []\<rparr>"
    by (simp add: demo_env_def)
  show ?thesis
    using h absent_model_unavailable
      [OF h, of "\<lparr>gender_sel = None, cache_resource = None\<rparr>"
        "\<lparr>age = 25, female_selected = False, male_selected = False, predict_clicked = True\<rparr>"
        "[\<lparr>age = 40, female_selected = False, male_selected = True, predict_clicked = False\<rparr>,
          \<lparr>age = 40, female_selected = False, male_selected = False, predict_clicked = True\<rparr>]"
        "\<lparr>model_pkl = Pickle (Stub (Inr [''Drama'']) (Inr [[f64_0_1, f64_0_2, f64_0_7]])), calls = []\<rparr>"]
    by (simp add: numeral_2_eq_2)
qed

text \<open>
  C10. As long as no gender button has been pressed (the session starts without the
  key, and in no run so far and not in this one was a gender button pressed), the
  selected gender of the run is "Female", and a prediction asked for in this run is
  made on the Gender value 0: with the model loaded, the run shows "Female" as the
  selection and writes what the classifier answers to the input with the columns
  Age, holding the age of the slider, and Gender, holding 0.
\<close>

theorem default_gender_female:
  assumes "gender_sel s = None"
    and "\<forall>wd \<in> set wds. \<not> female_selected wd \<and> \<not> male_selected wd"
    and "\<not> female_selected wd'" and "\<not> male_selected wd'"
  shows "determine_gender wd' (gender_sel (fst (snd (reruns E wds s w)))) = ''Female''
       \<and> input_data (age wd') (determine_gender wd' (gender_sel (fst (snd (reruns E wds s w)))))
           = [(''Age'', [age wd']), (''Gender'', [0])]
       \<and> (predict_clicked wd'
            \<and> load_model_cached E (fst (snd (reruns E wds s w))) (snd (snd (reruns E wds s w)))
                = ((Some model, out), s1, w1) \<longrightarrow>
          main E wd' (fst (snd (reruns E wds s w))) (snd (snd (reruns E wds s w)))
            = (out @ [Header, AgeDisplay (age wd'), Selected ''Female'',
                      fst (make_prediction E model [(''Age'', [age wd']), (''Gender'', [0])] w1),
                      Footer],
               s1\<lparr>gender_sel := Some ''Female''\<rparr>,
               snd (make_prediction E model [(''Age'', [age wd']), (''Gender'', [0])] w1)))"
proof -
  define s' where "s' = fst (snd (reruns E wds s w))"
  define w' where "w' = snd (snd (reruns E wds s w))"
  have inv: "gender_sel s' \<in> {None, Some ''Female''}"
    unfolding s'_def using assms(1,2) by (intro reruns_gender_sel) auto
  with assms(3,4) have g: "determine_gender wd' (gender_sel s') = ''Female''"
    by (auto simp: determine_gender_def)
  then have d: "input_data (age wd') (determine_gender wd' (gender_sel s'))
                  = [(''Age'', [age wd']), (''Gender'', [0])]"
    by (simp add: input_data_def gender_encoded_def)
  have r: "main E wd' s' w'
            = (out @ [Header, AgeDisplay (age wd'), Selected ''Female'',
                      fst (make_prediction E model [(''Age'', [age wd']), (''Gender'', [0])] w1),
                      Footer],
               s1\<lparr>gender_sel := Some ''Female''\<rparr>,
               snd (make_prediction E model [(''Age'', [age wd']), (''Gender'', [0])] w1))"
    if c: "predict_clicked wd'" and l: "load_model_cached E s' w' = ((Some model, out), s1, w1)"
  proof -
    from l have "gender_sel s1 = gender_sel s'"
      by (auto simp: load_model_cached_def split: option.splits prod.splits)
    with g d have g1: "determine_gender wd' (gender_sel s1) = ''Female''"
      and d1: "input_data (age wd') (determine_gender wd' (gender_sel s1))
                 = [(''Age'', [age wd']), (''Gender'', [0])]"
      by simp_all
    have "make_prediction E model (input_data (age wd') (determine_gender wd' (gender_sel s1))) w1
            = (fst (make_prediction E model [(''Age'', [age wd']), (''Gender'', [0])] w1),
               snd (make_prediction E model [(''Age'', [age wd']), (''Gender'', [0])] w1))"
      unfolding d1 by simp
    from main_loaded [OF l c this] show ?thesis
      unfolding g1 .
  qed
  from g d r show ?thesis
    unfolding s'_def w'_def by blast
qed

theorem default_gender_female_witness:
  "main demo_env
     \<lparr>age = 33, female_selected = False, male_selected = False, predict_clicked = True\<rparr>
     \<lparr>gender_sel = Some ''Female'',
      cache_resource = Some (Some (Stub (Inr [''Animation'']) (Inr [[f64_0_7, f64_0_2, f64_0_1]])), [])\<rparr>
     \<lparr>model_pkl = Pickle (Stub (Inr [''Animation'']) (Inr [[f64_0_7, f64_0_2, f64_0_1]])),
      calls = [JoblibLoad]\<rparr>
   = ([Header, AgeDisplay 33, Selected ''Female'',
       ResultCard [CHR 0xF0, CHR 0x9F, CHR 0x8E, CHR 0xAC] ''Animation''
         (Finite False 4925812092436480 (- 46)),
       Footer],
      \<lparr>gender_sel = Some ''Female'',
       cache_resource = Some (Some (Stub (Inr [''Animation'']) (Inr [[f64_0_7, f64_0_2, f64_0_1]])), [])\<rparr>,
      \<lparr>model_pkl = Pickle (Stub (Inr [''Animation'']) (Inr [[f64_0_7, f64_0_2, f64_0_1]])),
       calls = [JoblibLoad, Predict [(''Age'', [33]), (''Gender'', [0])],
                PredictProba [(''Age'', [33]), (''Gender'', [0])]]\<rparr>)"
proof -
  let ?m = "Stub (Inr [''Animation'']) (Inr [[f64_0_7, f64_0_2, f64_0_1]])"
  let ?E = "demo_env"
  let ?s = "\<lparr>gender_sel = None, cache_resource = None :: (stub option \<times> element list) option\<rparr>"
  let ?w = "\<lparr>model_pkl = Pickle ?m, calls = []\<rparr>"
  let ?wds = "[\<lparr>age = 25, female_selected = False, male_selected = False, predict_clicked = False\<rparr>]"
  let ?wd' = "\<lparr>age = 33, female_selected = False, male_selected = False, predict_clicked = True\<rparr>"
  let ?s' = "\<lparr>gender_sel = Some ''Female'', cache_resource = Some (Some ?m, [])\<rparr>"
  let ?w' = "\<lparr>model_pkl = Pickle ?m, calls = [JoblibLoad]\<rparr>"
  let ?df = "[(''Age'', [33]), (''Gender'', [0::int])]"
  have run: "reruns ?E ?wds ?s ?w
      = ([[Header, AgeDisplay 25, Selected ''Female'', Footer]], ?s', ?w')"
    by (simp add: main_def load_model_cached_def load_model_def demo_env_def
        determine_gender_def Let_def)
  have l: "load_model_cached ?E ?s' ?w' = ((Some ?m, []), ?s', ?w')"
    by (simp add: load_model_cached_def)
  have mp: "make_prediction ?E ?m ?df ?w'
      = (ResultCard (emoji ''Animation'') ''Animation'' (times100 (py_max_from f64_0_7 [f64_0_2, f64_0_1])),
         \<lparr>model_pkl = Pickle ?m, calls = [JoblibLoad, Predict ?df, PredictProba ?df]\<rparr>)"
    using make_prediction_ok
      [of demo_env ?m ?df ?w' "''Animation''" "[]"
          "\<lparr>model_pkl = Pickle ?m, calls = [JoblibLoad, Predict ?df]\<rparr>"
          f64_0_7 "[f64_0_2, f64_0_1]" "[]"
          "\<lparr>model_pkl = Pickle ?m, calls = [JoblibLoad, Predict ?df, PredictProba ?df]\<rparr>"]
    by (simp add: demo_env_def)
  have h1: "gender_sel ?s = None" by simp
  have h2: "\<forall>wd \<in> set ?wds. \<not> female_selected wd \<and> \<not> male_selected wd" by simp
  have h3: "\<not> female_selected ?wd'" and h4: "\<not> male_selected ?wd'" by simp_all
  from default_gender_female [OF h1 h2 h3 h4, of ?E ?w ?m "[]" ?s' ?w']
  show ?thesis
    unfolding run by (simp add: l mp max_0_7 times100_0_7 emoji_def emoji_map_def)
qed

text \<open>
  The labels the page can hold: from a session without the key, or with one of the
  two labels, the selection of a run is "Female" or "Male".
\<close>

lemma determine_gender_known:
  assumes "sel \<in> {None, Some ''Female'', Some ''Male''}"
  shows "determine_gender wd sel \<in> {''Female'', ''Male''}"
  using assms by (auto simp: determine_gender_def)

text \<open>
  C3, as the script has it. For every gender label outside "Female" and "Male" (for
  example "Other") the encoding does not fail: the Gender field is 1, as for "Male",
  the Age field is the age unchanged, and the columns are Age, Gender.
\<close>

theorem encode_unknown_gender:
  assumes "g \<notin> {''Female'', ''Male''}"
  shows "input_data a g = [(''Age'', [a]), (''Gender'', [1])]"
  using assms by (simp add: input_data_def gender_encoded_def)

theorem encode_unknown_gender_witness:
  "''Nonbinary'' \<notin> {''Female'', ''Male''}
   \<and> input_data 61 ''Nonbinary'' = [(''Age'', [61]), (''Gender'', [1])]"
  using encode_unknown_gender [of "''Nonbinary''" 61] by simp

text \<open>
  An encoding error for C3 is not what the script does: at the label "Other" the
  encoding gives the Gender value 1, and a run with this label in the session asks
  the classifier with that value and writes a result card.
\<close>

theorem encode_other_counterexample:
  "input_data 25 ''Other'' = [(''Age'', [25]), (''Gender'', [1])]
   \<and> main demo_env
        \<lparr>age = 25, female_selected = False, male_selected = False, predict_clicked = True\<rparr>
        \<lparr>gender_sel = Some ''Other'',
         cache_resource = Some (Some (Stub (Inr [''Animation'']) (Inr [[f64_0_7, f64_0_2, f64_0_1]])), [])\<rparr>
        \<lparr>model_pkl = Absent, calls = []\<rparr>
       = ([Header, AgeDisplay 25, Selected ''Other'',
           ResultCard [CHR 0xF0, CHR 0x9F, CHR 0x8E, CHR 0xAC] ''Animation''
             (Finite False 4925812092436480 (- 46)), Footer],
          \<lparr>gender_sel = Some ''Other'',
           cache_resource = Some (Some (Stub (Inr [''Animation'']) (Inr [[f64_0_7, f64_0_2, f64_0_1]])), [])\<rparr>,
          \<lparr>model_pkl = Absent,
           calls = [Predict [(''Age'', [25]), (''Gender'', [1])],
                    PredictProba [(''Age'', [25]), (''Gender'', [1])]]\<rparr>)"
proof -
  have "input_data 25 ''Other'' = [(''Age'', [25]), (''Gender'', [1])]"
    by (simp add: input_data_def gender_encoded_def)
  moreover have "determine_gender
      \<lparr>age = 25, female_selected = False, male_selected = False, predict_clicked = True\<rparr>
      (Some ''Other'') = ''Other''"
    by (simp add: determine_gender_def)
  moreover have "make_prediction demo_env (Stub (Inr [''Animation'']) (Inr [[f64_0_7, f64_0_2, f64_0_1]]))
      [(''Age'', [25]), (''Gender'', [1])] \<lparr>model_pkl = Absent, calls = []\<rparr>
      = (ResultCard [CHR 0xF0, CHR 0x9F, CHR 0x8E, CHR 0xAC] ''Animation''
             (Finite False 4925812092436480 (- 46)),
         \<lparr>model_pkl = Absent,
          calls = [Predict [(''Age'', [25]), (''Gender'', [1])],
                   PredictProba [(''Age'', [25]), (''Gender'', [1])]]\<rparr>)"
    using make_prediction_ok
      [of demo_env "Stub (Inr [''Animation'']) (Inr [[f64_0_7, f64_0_2, f64_0_1]])"
          "[(''Age'', [25]), (''Gender'', [1])]" "\<lparr>model_pkl = Absent, calls = []\<rparr>"
          "''Animation''" "[]"
          "\<lparr>model_pkl = Absent, calls = [Predict [(''Age'', [25]), (''Gender'', [1])]]\<rparr>"
          f64_0_7 "[f64_0_2, f64_0_1]" "[]"
          "\<lparr>model_pkl = Absent,
            calls = [Predict [(''Age'', [25]), (''Gender'', [1])],
                     PredictProba [(''Age'', [25]), (''Gender'', [1])]]\<rparr>"]
    by (simp add: demo_env_def max_0_7 times100_0_7 emoji_def emoji_map_def)
  ultimately show ?thesis
    by (simp add: main_loaded_clicked)
qed

text \<open>
  C4, as the script has it. For every label outside "Animation", "Action" and "Drama"
  (for example "Comedy") that the classifier returns, the prediction does not fail:
  the result card shows that label, with the fallback glyph and the confidence,
  which is \<open>max(probabilities) * 100\<close>: an entry of the distribution times 100.
\<close>

theorem unknown_label_accepted:
  assumes "predict E model df w = (Inr (l # ls), w1)"
    and "predict_proba E model df w1 = (Inr ((p # ps) # rows), w2)"
    and "l \<notin> {''Animation'', ''Action'', ''Drama''}"
  shows "py_max_from p ps \<in> set (p # ps)
       \<and> make_prediction E model df w
           = (ResultCard emoji_default l (times100 (py_max_from p ps)), w2)"
proof -
  from assms(3) have "emoji l = emoji_default"
    by (simp add: emoji_def emoji_map_def)
  with make_prediction_ok [OF assms(1,2)] py_max_from_mem [of p ps] show ?thesis by simp
qed

theorem unknown_label_accepted_witness:
  "''Horror'' \<notin> {''Animation'', ''Action'', ''Drama''}
   \<and> make_prediction demo_env (Stub (Inr [''Horror'']) (Inr [[f64_0_25, f64_0_5, f64_0_25]]))
        (input_data 44 ''Male'') \<lparr>model_pkl = Absent, calls = []\<rparr>
       = (ResultCard emoji_default ''Horror'' (Finite False 7036874417766400 (- 47)),
          \<lparr>model_pkl = Absent,
           calls = [Predict (input_data 44 ''Male''), PredictProba (input_data 44 ''Male'')]\<rparr>)
   \<and> fvalue False 7036874417766400 (- 47) = 50"
  using unknown_label_accepted
    [of demo_env "Stub (Inr [''Horror'']) (Inr [[f64_0_25, f64_0_5, f64_0_25]])"
        "input_data 44 ''Male''" "\<lparr>model_pkl = Absent, calls = []\<rparr>"
        "''Horror''" "[]"
        "\<lparr>model_pkl = Absent, calls = [Predict (input_data 44 ''Male'')]\<rparr>"
        f64_0_25 "[f64_0_5, f64_0_25]" "[]"
        "\<lparr>model_pkl = Absent,
          calls = [Predict (input_data 44 ''Male''), PredictProba (input_data 44 ''Male'')]\<rparr>"]
  by (simp add: demo_env_def max_0_5 times100_0_5 fvalue_50)

text \<open>
  An unknown-label error for C4 is not what the script does: at the label "Comedy"
  the prediction is a result card with that label and the fallback glyph.
\<close>

theorem unknown_label_counterexample:
  "make_prediction demo_env (Stub (Inr [''Comedy'']) (Inr [[f64_0_7, f64_0_2, f64_0_1]]))
     (input_data 25 ''Female'') \<lparr>model_pkl = Absent, calls = []\<rparr>
   = (ResultCard [CHR 0xF0, CHR 0x9F, CHR 0x8E, CHR 0xAF] ''Comedy''
        (Finite False 4925812092436480 (- 46)),
      \<lparr>model_pkl = Absent,
       calls = [Predict (input_data 25 ''Female''), PredictProba (input_data 25 ''Female'')]\<rparr>)"
  using make_prediction_ok
    [of demo_env "Stub (Inr [''Comedy'']) (Inr [[f64_0_7, f64_0_2, f64_0_1]])"
        "input_data 25 ''Female''" "\<lparr>model_pkl = Absent, calls = []\<rparr>"
        "''Comedy''" "[]"
        "\<lparr>model_pkl = Absent, calls = [Predict (input_data 25 ''Female'')]\<rparr>"
        f64_0_7 "[f64_0_2, f64_0_1]" "[]"
        "\<lparr>model_pkl = Absent,
          calls = [Predict (input_data 25 ''Female''), PredictProba (input_data 25 ''Female'')]\<rparr>"]
  by (simp add: demo_env_def max_0_7 times100_0_7 emoji_def emoji_map_def emoji_default_def)

text \<open>
  C8, as the script has it. When the file is there and \<open>joblib.load\<close> raises,
  \<open>load_model\<close> writes an error message that carries the exception and returns
  \<open>None\<close>, the value it also returns when the file is absent; \<open>joblib.load\<close> has been
  called once (the world afterwards is the world right after that call) and no other
  model is returned. The run then writes the model-not-found notice, and so does
  every later run, without another call of \<open>joblib.load\<close>.
\<close>

theorem corrupt_model_reported:
  assumes "path_exists E w"
    and "joblib_load E w = (Inl e, w')"
    and "cache_resource s = None"
  shows "load_model E w = ((None, [StError ''Error loading model: '' e]), w')
       \<and> main E wd s w =
           ([StError ''Error loading model: '' e, Header, ModelNotFound],
            s\<lparr>cache_resource := Some (None, [StError ''Error loading model: '' e])\<rparr>, w')
       \<and> reruns E wds (s\<lparr>cache_resource := Some (None, [StError ''Error loading model: '' e])\<rparr>) w''
           = (replicate (length wds) [StError ''Error loading model: '' e, Header, ModelNotFound],
              s\<lparr>cache_resource := Some (None, [StError ''Error loading model: '' e])\<rparr>, w'')"
proof (intro conjI)
  show l: "load_model E w = ((None, [StError ''Error loading model: '' e]), w')"
    using assms(1,2) by (simp add: load_model_def)
  show "main E wd s w =
           ([StError ''Error loading model: '' e, Header, ModelNotFound],
            s\<lparr>cache_resource := Some (None, [StError ''Error loading model: '' e])\<rparr>, w')"
    using assms(3) l by (simp add: main_def load_model_cached_def)
  show "reruns E wds (s\<lparr>cache_resource := Some (None, [StError ''Error loading model: '' e])\<rparr>) w''
           = (replicate (length wds) [StError ''Error loading model: '' e, Header, ModelNotFound],
              s\<lparr>cache_resource := Some (None, [StError ''Error loading model: '' e])\<rparr>, w'')"
    using reruns_unavailable
      [of "s\<lparr>cache_resource := Some (None, [StError ''Error loading model: '' e])\<rparr>"
          "[StError ''Error loading model: '' e]" E wds w'']
    by simp
qed

theorem corrupt_model_reported_witness:
  "path_exists demo_env \<lparr>model_pkl = Corrupt ''unsupported pickle protocol'', calls = []\<rparr>
   \<and> load_model demo_env \<lparr>model_pkl = Corrupt ''unsupported pickle protocol'', calls = []\<rparr>
       = ((None, [StError ''Error loading model: '' (Exception ''unsupported pickle protocol'')]),
          \<lparr>model_pkl = Corrupt ''unsupported pickle protocol'', calls = [JoblibLoad]\<rparr>)
   \<and> main demo_env
        \<lparr>age = 25, female_selected = False, male_selected = False, predict_clicked = False\<rparr>
        \<lparr>gender_sel = None, cache_resource = None\<rparr>
        \<lparr>model_pkl = Corrupt ''unsupported pickle protocol'', calls = []\<rparr>
       = ([StError ''Error loading model: '' (Exception ''unsupported pickle protocol''),
           Header, ModelNotFound],
          \<lparr>gender_sel = None,
           cache_resource = Some (None,
             [StError ''Error loading model: '' (Exception ''unsupported pickle protocol'')])\<rparr>,
          \<lparr>model_pkl = Corrupt ''unsupported pickle protocol'', calls = [JoblibLoad]\<rparr>)"
proof -
  let ?w = "\<lparr>model_pkl = Corrupt ''unsupported pickle protocol'', calls = []\<rparr>"
  let ?w' = "\<lparr>model_pkl = Corrupt ''unsupported pickle protocol'', calls = [JoblibLoad]\<rparr>"
  have h1: "path_exists demo_env ?w"
    by (simp add: demo_env_def)
  have h2: "joblib_load demo_env ?w = (Inl (Exception ''unsupported pickle protocol''), ?w')"
    by (simp add: demo_env_def)
  have h3: "cache_resource \<lparr>gender_sel = None, cache_resource = None\<rparr> = None"
    by simp
  show ?thesis
    using h1 corrupt_model_reported
      [OF h1 h2 h3,
        of "\<lparr>age = 25, female_selected = False, male_selected = False, predict_clicked = False\<rparr>"
           "[]" ?w']
    by simp
qed

text \<open>
  A returned value for C8 that differs from the one for an absent file is not what
  the script does: for a file that is there and does not load, \<open>load_model\<close> returns
  \<open>None\<close>, the very value it returns for an absent file, and the page of the run
  ends with the model-not-found notice in both cases.
\<close>

theorem corrupt_model_counterexample:
  "fst (fst (load_model demo_env \<lparr>model_pkl = Corrupt ''invalid load key'', calls = []\<rparr>)) = None
   \<and> fst (fst (load_model demo_env \<lparr>model_pkl = Absent, calls = []\<rparr>)) = None
   \<and> last (fst (main demo_env
        \<lparr>age = 25, female_selected = False, male_selected = False, predict_clicked = False\<rparr>
        \<lparr>gender_sel = None, cache_resource = None\<rparr>
        \<lparr>model_pkl = Corrupt ''invalid load key'', calls = []\<rparr>)) = ModelNotFound
   \<and> last (fst (main demo_env
        \<lparr>age = 25, female_selected = False, male_selected = False, predict_clicked = False\<rparr>
        \<lparr>gender_sel = None, cache_resource = None\<rparr>
        \<lparr>model_pkl = Absent, calls = []\<rparr>)) = ModelNotFound"
  by (simp add: main_def load_model_cached_def load_model_def demo_env_def)

end
